theory Spec2Isabelle
  imports Complex_Main "HOL-Library.Multiset" "HOL-Library.Sublist"
begin

section \<open>The launch-records dashboard: data model\<close>

text \<open>
  The repository is one Python module, \<^verbatim>\<open>spacex-dash-app.py\<close>. It reads a table of
  launch records into the module-level data frame \<^verbatim>\<open>spacex_df\<close> and registers two
  callbacks, \<^verbatim>\<open>get_pie_chart\<close> and \<^verbatim>\<open>get_scatter_chart\<close>, that recompute the two
  charts from the frame and the current selection.

  A row of the frame is a record with the four columns the module reads. The column
  \<^verbatim>\<open>'class'\<close> is an integer column (1 for a successful launch, 0 for a failed one); it is
  called \<open>class_col\<close> here. Payload masses are rational numbers: every finite
  floating-point value is one, and the module only compares them. A missing value (NaN)
  is outside this model.
\<close>

record LaunchRecord =
  Launch_Site :: string
  Payload_Mass :: rat
  class_col :: int
  Booster_Version_Category :: string

text \<open>The data frame is the list of its rows, in file order.\<close>

type_synonym dataframe = "LaunchRecord list"

subsection \<open>The data-frame operations the module calls\<close>

text \<open>
  \<^verbatim>\<open>Series.unique()\<close>: the distinct values of a column, each kept at its first
  occurrence.
\<close>

fun unique :: "'a list \<Rightarrow> 'a list" where
  "unique [] = []"
| "unique (x # xs) = x # unique (filter (\<lambda>y. y \<noteq> x) xs)"

text \<open>
  \<^verbatim>\<open>Series.value_counts().reset_index()\<close> followed by the renaming of the two columns to
  \<^verbatim>\<open>['class', 'count']\<close>: one row per distinct value with the number of its occurrences,
  the most frequent value first (values of equal frequency stay in first-seen order).
\<close>

definition value_counts :: "int list \<Rightarrow> (int \<times> nat) list" where
  "value_counts xs =
     sort_key (\<lambda>(v, n). - int n) (map (\<lambda>v. (v, count_list xs v)) (unique xs))"

subsection \<open>Chart specifications\<close>

text \<open>
  A pie figure as \<^verbatim>\<open>px.pie(data_frame, values=..., names=...)\<close> builds it: one
  (name, value) pair per row of the frame it is given, and the title. The names are site
  identifiers in the all-sites chart and values of the class column in the per-site chart.
\<close>

datatype pie_name = SiteName string | ClassName int

record pie_figure =
  pie_rows :: "(pie_name \<times> int) list"
  pie_title :: string
  color_discrete_map :: "(int \<times> string) list"

text \<open>
  A scatter figure as \<^verbatim>\<open>px.scatter(data_frame, x='Payload Mass (kg)', y='class',
  color='Booster Version Category', title=...)\<close> builds it: the rows of the frame it is
  given and the title.
\<close>

record scatter_figure =
  scatter_data :: dataframe
  scatter_title :: string

section \<open>The module\<close>

subsection \<open>The site selector's options (lines 17 to 24)\<close>

record dropdown_option =
  option_label :: string
  option_value :: string

definition dropdown_options :: "dataframe \<Rightarrow> dropdown_option list" where
  "dropdown_options spacex_df =
     (let launch_sites = unique (map Launch_Site spacex_df)
      in fold (\<lambda>site opts. opts @ [\<lparr>option_label = site, option_value = site\<rparr>])
           launch_sites
           [\<lparr>option_label = ''All Sites'', option_value = ''ALL''\<rparr>])"

subsection \<open>The pie-chart callback (lines 67 to 91)\<close>

definition get_pie_chart :: "dataframe \<Rightarrow> string \<Rightarrow> pie_figure" where
  "get_pie_chart spacex_df entered_site =
     (if entered_site = ''ALL'' then
        \<lparr>pie_rows = map (\<lambda>r. (SiteName (Launch_Site r), class_col r)) spacex_df,
         pie_title = ''Total Success Launches By Site (All Sites)'',
         color_discrete_map = []\<rparr>
      else
        let filtered_df = filter (\<lambda>r. Launch_Site r = entered_site) spacex_df;
            success_counts = value_counts (map class_col filtered_df)
        in \<lparr>pie_rows = map (\<lambda>(c, n). (ClassName c, int n)) success_counts,
            pie_title = ''Total Success vs. Failed Launches for '' @ entered_site,
            color_discrete_map = [(0, ''red''), (1, ''green'')]\<rparr>)"

subsection \<open>The scatter-chart callback (lines 98 to 125)\<close>

text \<open>
  \<^verbatim>\<open>low, high = payload_range\<close> unpacks a sequence of exactly two elements and raises
  \<^verbatim>\<open>ValueError\<close> on any other length. (\<^verbatim>\<open>KeyError\<close> is what indexing a frame by a
  column it does not have raises; it is used further down.)
\<close>

datatype error = ValueError | KeyError

definition get_scatter_chart :: "dataframe \<Rightarrow> string \<Rightarrow> rat list \<Rightarrow> error + scatter_figure" where
  "get_scatter_chart spacex_df entered_site payload_range =
     (case payload_range of
        [low, high] \<Rightarrow>
          let filtered_payload_df =
                filter (\<lambda>r. Payload_Mass r \<ge> low \<and> Payload_Mass r \<le> high) spacex_df
          in if entered_site = ''ALL'' then
               Inr \<lparr>scatter_data = filtered_payload_df,
                    scatter_title = ''Correlation between Payload and Success for All Sites''\<rparr>
             else
               let filtered_site_payload_df =
                     filter (\<lambda>r. Launch_Site r = entered_site) filtered_payload_df
               in Inr \<lparr>scatter_data = filtered_site_payload_df,
                       scatter_title =
                         ''Correlation between Payload and Success for '' @ entered_site\<rparr>
      | _ \<Rightarrow> Inl ValueError)"

subsection \<open>The module state\<close>

text \<open>
  The module keeps its data in module-level variables, and a pandas data frame is a
  mutable object that a variable refers to. To say what a callback does to the loaded
  frame, and what its result depends on, the two callbacks are written a second time as
  they run on the state of the module: the frame objects by identifier, the next
  identifier to be given out, and the module-level variables of lines 10 to 24. The
  variable \<^verbatim>\<open>spacex_df\<close> holds the identifier of the frame that \<^verbatim>\<open>read_csv\<close> built.
  An identifier is given out once; objects that Python would free stay in the state.

  A frame object is either a table of launch records or the two-column table that
  \<^verbatim>\<open>value_counts().reset_index()\<close> builds, with the current names of its columns.
\<close>

datatype frame_object =
    Launches dataframe
  | Counts "string list" "(int \<times> nat) list"

record module_state =
  objects :: "nat \<Rightarrow> frame_object option"
  next_id :: nat
  g_spacex_df :: nat
  g_max_payload :: "rat option"
  g_min_payload :: "rat option"
  g_launch_sites :: "string list"
  g_dropdown_options :: "dropdown_option list"

text \<open>
  Lines 10 to 24. The frame read from the file is the first object. The maximum and the
  minimum of an empty column are missing values, here \<open>None\<close>.
\<close>

definition column_max :: "rat list \<Rightarrow> rat option" where
  "column_max xs = (case xs of [] \<Rightarrow> None | x # ys \<Rightarrow> Some (fold max ys x))"

definition column_min :: "rat list \<Rightarrow> rat option" where
  "column_min xs = (case xs of [] \<Rightarrow> None | x # ys \<Rightarrow> Some (fold min ys x))"

definition startup :: "dataframe \<Rightarrow> module_state" where
  "startup csv_rows =
     \<lparr>objects = (\<lambda>i. None)(0 := Some (Launches csv_rows)),
      next_id = 1,
      g_spacex_df = 0,
      g_max_payload = column_max (map Payload_Mass csv_rows),
      g_min_payload = column_min (map Payload_Mass csv_rows),
      g_launch_sites = unique (map Launch_Site csv_rows),
      g_dropdown_options = dropdown_options csv_rows\<rparr>"

text \<open>
  \<^verbatim>\<open>frame[mask]\<close> with a boolean mask computed from the frame's own columns (lines 78,
  102 to 105 and 117 to 119): a new frame object with the rows the mask selects; the frame
  indexed is left as it is. The masks of the module read the columns \<^verbatim>\<open>Launch Site\<close>
  and \<^verbatim>\<open>Payload Mass (kg)\<close>; a counts table has neither, and reading one of them raises
  \<^verbatim>\<open>KeyError\<close>.
\<close>

definition select_rows ::
  "(LaunchRecord \<Rightarrow> bool) \<Rightarrow> nat \<Rightarrow> module_state \<Rightarrow> (error + nat) \<times> module_state" where
  "select_rows keep a s =
     (case objects s a of
        Some (Launches rows) \<Rightarrow>
          (Inr (next_id s),
           s\<lparr>objects := (objects s)(next_id s := Some (Launches (filter keep rows))),
             next_id := Suc (next_id s)\<rparr>)
      | _ \<Rightarrow> (Inl KeyError, s))"

text \<open>
  \<^verbatim>\<open>frame['class'].value_counts().reset_index()\<close> (line 81): a new two-column frame
  object, one row per distinct value of the class column with the number of its
  occurrences. Its columns are named \<^verbatim>\<open>class\<close> and \<^verbatim>\<open>count\<close> (older versions of
  the library name them otherwise; line 82 sets the names in either case). The module
  applies it to the frame that line 78 has built, a table of launch records; for a counts
  table the model raises \<^verbatim>\<open>KeyError\<close> without looking at its columns.
\<close>

definition value_counts_reset_index ::
  "nat \<Rightarrow> module_state \<Rightarrow> (error + nat) \<times> module_state" where
  "value_counts_reset_index a s =
     (case objects s a of
        Some (Launches rows) \<Rightarrow>
          (Inr (next_id s),
           s\<lparr>objects := (objects s)(next_id s :=
                  Some (Counts [''class'', ''count''] (value_counts (map class_col rows)))),
             next_id := Suc (next_id s)\<rparr>)
      | _ \<Rightarrow> (Inl KeyError, s))"

text \<open>
  \<^verbatim>\<open>frame.columns = names\<close> (line 82): the one assignment of the module that changes an
  existing frame object in place. Two names fit a two-column table only.
\<close>

definition set_columns ::
  "nat \<Rightarrow> string list \<Rightarrow> module_state \<Rightarrow> (error + unit) \<times> module_state" where
  "set_columns a names s =
     (case objects s a of
        Some (Counts cols cnts) \<Rightarrow>
          if length names = 2 then
            (Inr (), s\<lparr>objects := (objects s)(a := Some (Counts names cnts))\<rparr>)
          else (Inl ValueError, s)
      | _ \<Rightarrow> (Inl ValueError, s))"

text \<open>
  \<^verbatim>\<open>px.pie\<close> and \<^verbatim>\<open>px.scatter\<close> read the frame they are given and build a figure;
  a frame without the columns they are told to use raises \<^verbatim>\<open>ValueError\<close>.
  \<open>px_pie_sites\<close> is the call of line 71 (\<^verbatim>\<open>values='class', names='Launch Site'\<close>),
  \<open>px_pie_counts\<close> the call of line 84 (\<^verbatim>\<open>values='count', names='class'\<close>), which
  the model answers for a counts table whose columns carry these two names in this order.
\<close>

definition px_pie_sites :: "nat \<Rightarrow> string \<Rightarrow> module_state \<Rightarrow> error + pie_figure" where
  "px_pie_sites a title s =
     (case objects s a of
        Some (Launches rows) \<Rightarrow>
          Inr \<lparr>pie_rows = map (\<lambda>r. (SiteName (Launch_Site r), class_col r)) rows,
               pie_title = title,
               color_discrete_map = []\<rparr>
      | _ \<Rightarrow> Inl ValueError)"

definition px_pie_counts ::
  "nat \<Rightarrow> string \<Rightarrow> (int \<times> string) list \<Rightarrow> module_state \<Rightarrow> error + pie_figure" where
  "px_pie_counts a title colors s =
     (case objects s a of
        Some (Counts cols cnts) \<Rightarrow>
          if cols = [''class'', ''count''] then
            Inr \<lparr>pie_rows = map (\<lambda>(c, n). (ClassName c, int n)) cnts,
                 pie_title = title,
                 color_discrete_map = colors\<rparr>
          else Inl ValueError
      | _ \<Rightarrow> Inl ValueError)"

definition px_scatter :: "nat \<Rightarrow> string \<Rightarrow> module_state \<Rightarrow> error + scatter_figure" where
  "px_scatter a title s =
     (case objects s a of
        Some (Launches rows) \<Rightarrow> Inr \<lparr>scatter_data = rows, scatter_title = title\<rparr>
      | _ \<Rightarrow> Inl ValueError)"

text \<open>The pie-chart callback (lines 67 to 91), statement by statement, on the module state.\<close>

definition get_pie_chart_call ::
  "string \<Rightarrow> module_state \<Rightarrow> (error + pie_figure) \<times> module_state" where
  "get_pie_chart_call entered_site s =
     (if entered_site = ''ALL'' then
        (px_pie_sites (g_spacex_df s) ''Total Success Launches By Site (All Sites)'' s, s)
      else
        case select_rows (\<lambda>r. Launch_Site r = entered_site) (g_spacex_df s) s of
          (Inl e, s1) \<Rightarrow> (Inl e, s1)
        | (Inr filtered_df, s1) \<Rightarrow>
            (case value_counts_reset_index filtered_df s1 of
               (Inl e, s2) \<Rightarrow> (Inl e, s2)
             | (Inr success_counts, s2) \<Rightarrow>
                 (case set_columns success_counts [''class'', ''count''] s2 of
                    (Inl e, s3) \<Rightarrow> (Inl e, s3)
                  | (Inr u, s3) \<Rightarrow>
                      (px_pie_counts success_counts
                         (''Total Success vs. Failed Launches for '' @ entered_site)
                         [(0, ''red''), (1, ''green'')] s3,
                       s3))))"

text \<open>The scatter-chart callback (lines 98 to 125) on the module state.\<close>

definition get_scatter_chart_call ::
  "string \<Rightarrow> rat list \<Rightarrow> module_state \<Rightarrow> (error + scatter_figure) \<times> module_state" where
  "get_scatter_chart_call entered_site payload_range s =
     (case payload_range of
        [low, high] \<Rightarrow>
          (case select_rows (\<lambda>r. Payload_Mass r \<ge> low \<and> Payload_Mass r \<le> high)
                  (g_spacex_df s) s of
             (Inl e, s1) \<Rightarrow> (Inl e, s1)
           | (Inr filtered_payload_df, s1) \<Rightarrow>
               if entered_site = ''ALL'' then
                 (px_scatter filtered_payload_df
                    ''Correlation between Payload and Success for All Sites'' s1,
                  s1)
               else
                 (case select_rows (\<lambda>r. Launch_Site r = entered_site) filtered_payload_df s1 of
                    (Inl e, s2) \<Rightarrow> (Inl e, s2)
                  | (Inr filtered_site_payload_df, s2) \<Rightarrow>
                      (px_scatter filtered_site_payload_df
                         (''Correlation between Payload and Success for '' @ entered_site) s2,
                       s2)))
      | _ \<Rightarrow> (Inl ValueError, s))"

text \<open>
  The framework calls the callbacks one after the other, each with the selector values
  of the moment; the figure goes to the page and the state stays with the module.
\<close>

datatype invocation = Pie_call string | Scatter_call string "rat list"

fun invoke :: "module_state \<Rightarrow> invocation \<Rightarrow> module_state" where
  "invoke s (Pie_call site) = snd (get_pie_chart_call site s)"
| "invoke s (Scatter_call site payload_range) = snd (get_scatter_chart_call site payload_range s)"

definition replay :: "module_state \<Rightarrow> invocation list \<Rightarrow> module_state" where
  "replay s calls = fold (\<lambda>c s'. invoke s' c) calls s"

section \<open>Vocabulary of the properties\<close>

text \<open>
  The position at which a value is first seen in a list (the length of the list when it
  does not occur).
\<close>

definition first_pos :: "'a list \<Rightarrow> 'a \<Rightarrow> nat" where
  "first_pos xs x = length (takeWhile (\<lambda>y. y \<noteq> x) xs)"

text \<open>
  The number of rows of a site with a given value of the class column: the successes of
  the site for the value 1, its failures for the value 0.
\<close>

definition outcome_count :: "dataframe \<Rightarrow> string \<Rightarrow> int \<Rightarrow> nat" where
  "outcome_count df s c = length (filter (\<lambda>r. Launch_Site r = s \<and> class_col r = c) df)"

text \<open>The class column is binary: every row holds 0 or 1.\<close>

definition binary_class :: "dataframe \<Rightarrow> bool" where
  "binary_class df = list_all (\<lambda>r. class_col r = 0 \<or> class_col r = 1) df"

text \<open>The four rows used as concrete inputs below.\<close>

definition row_a1 :: LaunchRecord where
  "row_a1 = \<lparr>Launch_Site = ''CCAFS LC-40'', Payload_Mass = 500, class_col = 1,
             Booster_Version_Category = ''v1.0''\<rparr>"

definition row_b0 :: LaunchRecord where
  "row_b0 = \<lparr>Launch_Site = ''KSC LC-39A'', Payload_Mass = 3000, class_col = 0,
             Booster_Version_Category = ''FT''\<rparr>"

definition row_a0 :: LaunchRecord where
  "row_a0 = \<lparr>Launch_Site = ''CCAFS LC-40'', Payload_Mass = 3000, class_col = 0,
             Booster_Version_Category = ''v1.1''\<rparr>"

definition row_heavy :: LaunchRecord where
  "row_heavy = \<lparr>Launch_Site = ''KSC LC-39A'', Payload_Mass = 15600, class_col = 1,
                Booster_Version_Category = ''B5''\<rparr>"

text \<open>
  The variable \<^verbatim>\<open>spacex_df\<close> refers to a frame object with the rows \<open>df\<close>, and its
  identifier has been given out.
\<close>

definition loaded :: "module_state \<Rightarrow> dataframe \<Rightarrow> bool" where
  "loaded s df \<longleftrightarrow> objects s (g_spacex_df s) = Some (Launches df) \<and> g_spacex_df s < next_id s"

text \<open>
  From one state to a later one: the module-level variables are the same, and every object
  that existed is unchanged (new objects may have been built).
\<close>

definition kept :: "module_state \<Rightarrow> module_state \<Rightarrow> bool" where
  "kept s s' \<longleftrightarrow>
     g_spacex_df s' = g_spacex_df s \<and> g_max_payload s' = g_max_payload s
     \<and> g_min_payload s' = g_min_payload s \<and> g_launch_sites s' = g_launch_sites s
     \<and> g_dropdown_options s' = g_dropdown_options s
     \<and> next_id s \<le> next_id s'
     \<and> (\<forall>a. a < next_id s \<longrightarrow> objects s' a = objects s a)"

text \<open>
  A state with the same three rows as \<open>startup [row_a1, row_b0, row_a0]\<close> under another
  identifier, with other objects and other values of the remaining variables; and a
  state, which no run of the module reaches, whose variable refers to an identifier that
  has not been given out.
\<close>

definition state_elsewhere :: module_state where
  "state_elsewhere =
     \<lparr>objects = (\<lambda>i. None)(3 := Some (Counts [''class'', ''count''] [(1, 7)]),
                               5 := Some (Launches [row_a1, row_b0, row_a0])),
      next_id = 9,
      g_spacex_df = 5,
      g_max_payload = None,
      g_min_payload = Some 42,
      g_launch_sites = [],
      g_dropdown_options = []\<rparr>"

definition state_unallocated :: module_state where
  "state_unallocated =
     \<lparr>objects = (\<lambda>i. None)(0 := Some (Launches [row_a1, row_b0])),
      next_id = 0,
      g_spacex_df = 0,
      g_max_payload = None,
      g_min_payload = None,
      g_launch_sites = [],
      g_dropdown_options = []\<rparr>"

section \<open>Properties of the data-frame operations\<close>

lemma set_unique: "set (unique xs) = set xs"
  by (induction xs rule: unique.induct) auto

lemma distinct_unique: "distinct (unique xs)"
  by (induction xs rule: unique.induct) (auto simp: set_unique)

lemma unique_distinct: "distinct xs \<Longrightarrow> unique xs = xs"
proof (induction xs)
  case Nil
  show ?case by simp
next
  case (Cons x xs)
  then have "filter (\<lambda>y. y \<noteq> x) xs = xs"
    by (auto intro: filter_True)
  with Cons show ?case by simp
qed

lemma first_pos_filter_mono:
  "P a \<Longrightarrow> P b \<Longrightarrow> first_pos (filter P xs) a < first_pos (filter P xs) b
     \<Longrightarrow> first_pos xs a < first_pos xs b"
  by (induction xs) (auto simp: first_pos_def split: if_splits)

lemma unique_first_seen:
  "sorted_wrt (\<lambda>a b. first_pos xs a < first_pos xs b) (unique xs)"
proof (induction xs rule: unique.induct)
  case 1
  show ?case by simp
next
  case (2 x xs)
  let ?ys = "filter (\<lambda>y. y \<noteq> x) xs"
  have rest: "sorted_wrt (\<lambda>a b. first_pos (x # xs) a < first_pos (x # xs) b) (unique ?ys)"
  proof (rule sorted_wrt_mono_rel [OF _ "2.IH"])
    fix a b
    assume a: "a \<in> set (unique ?ys)" and b: "b \<in> set (unique ?ys)"
      and lt: "first_pos ?ys a < first_pos ?ys b"
    from a b have ne: "a \<noteq> x" "b \<noteq> x" by (auto simp: set_unique)
    from first_pos_filter_mono [of "\<lambda>y. y \<noteq> x" a b xs] ne lt
    have "first_pos xs a < first_pos xs b" by simp
    with ne show "first_pos (x # xs) a < first_pos (x # xs) b"
      by (simp add: first_pos_def)
  qed
  have first: "\<forall>b \<in> set (unique ?ys). first_pos (x # xs) x < first_pos (x # xs) b"
    by (auto simp: set_unique first_pos_def)
  from first rest show ?case by simp
qed

lemma sum_count_unique: "sum_list (map (count_list xs) (unique xs)) = length xs"
proof -
  have "sum_list (map (count_list xs) (unique xs)) = sum (count_list xs) (set (unique xs))"
    by (rule sum_list_distinct_conv_sum_set) (rule distinct_unique)
  also have "\<dots> = length xs"
    by (simp add: set_unique sum_count_set)
  finally show ?thesis .
qed

lemma set_value_counts: "set (value_counts xs) = (\<lambda>v. (v, count_list xs v)) ` set xs"
  by (simp add: value_counts_def set_unique)

lemma length_value_counts: "length (value_counts xs) = card (set xs)"
proof -
  have "length (value_counts xs) = length (unique xs)"
    by (simp add: value_counts_def)
  also have "\<dots> = card (set (unique xs))"
    by (rule distinct_card [symmetric]) (rule distinct_unique)
  finally show ?thesis by (simp add: set_unique)
qed

lemma mset_value_counts:
  "mset (value_counts xs) = mset (map (\<lambda>v. (v, count_list xs v)) (unique xs))"
  by (simp add: value_counts_def)

lemma distinct_value_counts: "distinct (map fst (value_counts xs))"
proof -
  have "mset (map fst (value_counts xs)) = mset (unique xs)"
    by (simp add: mset_value_counts multiset.map_comp comp_def)
  then show ?thesis
    using distinct_unique [of xs] by (metis mset_eq_imp_distinct_iff)
qed

lemma sum_value_counts: "sum_list (map snd (value_counts xs)) = length xs"
proof -
  have "sum_list (map snd (value_counts xs)) = sum_mset (mset (map snd (value_counts xs)))"
    by (simp only: sum_mset_sum_list)
  also have "mset (map snd (value_counts xs)) = mset (map (count_list xs) (unique xs))"
    by (simp add: mset_value_counts multiset.map_comp comp_def)
  also have "sum_mset \<dots> = sum_list (map (count_list xs) (unique xs))"
    by (simp only: sum_mset_sum_list)
  finally show ?thesis by (simp add: sum_count_unique)
qed

lemma fold_append_options:
  "fold (\<lambda>site opts. opts @ [f site]) sites init = init @ map f sites"
  by (induction sites arbitrary: init) auto

lemma dropdown_options_eq:
  "dropdown_options df =
     \<lparr>option_label = ''All Sites'', option_value = ''ALL''\<rparr>
       # map (\<lambda>site. \<lparr>option_label = site, option_value = site\<rparr>) (unique (map Launch_Site df))"
  by (simp add: dropdown_options_def fold_append_options)

lemma scatter_rows:
  "get_scatter_chart df site [low, high] =
     Inr \<lparr>scatter_data =
            filter (\<lambda>r. low \<le> Payload_Mass r \<and> Payload_Mass r \<le> high
                        \<and> (site = ''ALL'' \<or> Launch_Site r = site)) df,
          scatter_title =
            (if site = ''ALL'' then ''Correlation between Payload and Success for All Sites''
             else ''Correlation between Payload and Success for '' @ site)\<rparr>"
  by (auto simp: get_scatter_chart_def Let_def conj_commute conj_left_commute intro: filter_cong)

section \<open>Properties of the pie-chart rows\<close>

lemma site_group_sum:
  "sum_list (map snd (filter (\<lambda>p. fst p = SiteName s)
       (map (\<lambda>r. (SiteName (Launch_Site r), class_col r)) df)))
   = sum_list (map class_col (filter (\<lambda>r. Launch_Site r = s) df))"
  by (induction df) auto

lemma binary_sum_count:
  "binary_class df \<Longrightarrow>
     sum_list (map class_col (filter (\<lambda>r. Launch_Site r = s) df)) = int (outcome_count df s 1)"
  by (induction df) (auto simp: binary_class_def outcome_count_def)

lemma binary_sum_le:
  "binary_class df \<Longrightarrow> sum_list (map class_col df) \<le> int (length df)"
  by (induction df) (auto simp: binary_class_def)

lemma count_class_site:
  "count_list (map class_col (filter (\<lambda>r. Launch_Site r = s) df)) c = outcome_count df s c"
  by (induction df) (auto simp: outcome_count_def)

lemma binary_classes:
  "binary_class df \<Longrightarrow> set (map class_col (filter (\<lambda>r. Launch_Site r = s) df)) \<subseteq> {0, 1}"
  by (auto simp: binary_class_def list_all_iff)

lemma one_site_rows:
  "site \<noteq> ''ALL'' \<Longrightarrow>
     pie_rows (get_pie_chart df site) =
       map (\<lambda>(c, n). (ClassName c, int n))
         (value_counts (map class_col (filter (\<lambda>r. Launch_Site r = site) df)))"
  by (simp add: get_pie_chart_def)

lemma one_site_names_distinct:
  assumes "site \<noteq> ''ALL''"
  shows "distinct (map fst (pie_rows (get_pie_chart df site)))"
proof -
  let ?vc = "value_counts (map class_col (filter (\<lambda>r. Launch_Site r = site) df))"
  have "map fst (pie_rows (get_pie_chart df site)) = map ClassName (map fst ?vc)"
    by (simp add: one_site_rows [OF assms] comp_def case_prod_beta)
  moreover have "distinct (map ClassName (map fst ?vc))"
    by (subst distinct_map) (simp add: distinct_value_counts inj_on_def del: distinct_map)
  ultimately show ?thesis by simp
qed

section \<open>The site selector\<close>

text \<open>
  Claim C7. The option list built at startup starts with the synthetic option
  (label \<open>All Sites\<close>, value \<open>ALL\<close>). The options after it carry their site as label and
  as value; their values are the site identifiers of the data set, each exactly once, and
  an earlier option is a site that is first seen earlier in the data set.
\<close>

theorem dropdown_options_first_seen:
  "hd (dropdown_options df) = \<lparr>option_label = ''All Sites'', option_value = ''ALL''\<rparr>
   \<and> map option_label (tl (dropdown_options df)) = map option_value (tl (dropdown_options df))
   \<and> set (map option_value (tl (dropdown_options df))) = Launch_Site ` set df
   \<and> distinct (map option_value (tl (dropdown_options df)))
   \<and> sorted_wrt (\<lambda>a b. first_pos (map Launch_Site df) a < first_pos (map Launch_Site df) b)
         (map option_value (tl (dropdown_options df)))"
proof -
  let ?sites = "map Launch_Site df"
  have vals: "map option_value (tl (dropdown_options df)) = unique ?sites"
    by (simp add: dropdown_options_eq comp_def)
  have labs: "map option_label (tl (dropdown_options df)) = unique ?sites"
    by (simp add: dropdown_options_eq comp_def)
  have "hd (dropdown_options df) = \<lparr>option_label = ''All Sites'', option_value = ''ALL''\<rparr>"
    by (simp add: dropdown_options_eq)
  moreover from vals labs have
    "map option_label (tl (dropdown_options df)) = map option_value (tl (dropdown_options df))"
    by simp
  moreover from vals have "set (map option_value (tl (dropdown_options df))) = Launch_Site ` set df"
    by (simp only: set_unique set_map)
  moreover from vals have "distinct (map option_value (tl (dropdown_options df)))"
    by (simp only: distinct_unique)
  moreover from vals have
    "sorted_wrt (\<lambda>a b. first_pos ?sites a < first_pos ?sites b)
       (map option_value (tl (dropdown_options df)))"
    by (simp only: unique_first_seen)
  ultimately show ?thesis by blast
qed

text \<open>The option list of a data set whose second site appears between two rows of the first.\<close>

lemma dropdown_options_example:
  "dropdown_options [row_b0, row_a1, row_b0, row_a0] =
     [\<lparr>option_label = ''All Sites'', option_value = ''ALL''\<rparr>,
      \<lparr>option_label = ''KSC LC-39A'', option_value = ''KSC LC-39A''\<rparr>,
      \<lparr>option_label = ''CCAFS LC-40'', option_value = ''CCAFS LC-40''\<rparr>]"
  by (simp add: dropdown_options_def row_a1_def row_b0_def row_a0_def)

section \<open>The scatter chart\<close>

text \<open>
  Claim C3. For a payload range of two bounds the scatter callback returns a figure, and
  the rows of the figure are exactly the rows of the data set whose payload mass lies
  between the two bounds, both included, and whose site is the selected one when the
  selection is not \<open>ALL\<close>. The rows keep their order in the data set, and each is a whole
  record of the data set, its booster version category included.
\<close>

theorem get_scatter_chart_rows:
  "\<exists>fig. get_scatter_chart df site [low, high] = Inr fig
     \<and> scatter_data fig =
         filter (\<lambda>r. low \<le> Payload_Mass r \<and> Payload_Mass r \<le> high
                     \<and> (site \<noteq> ''ALL'' \<longrightarrow> Launch_Site r = site)) df
     \<and> subseq (scatter_data fig) df"
proof -
  have "filter (\<lambda>r. low \<le> Payload_Mass r \<and> Payload_Mass r \<le> high
             \<and> (site = ''ALL'' \<or> Launch_Site r = site)) df
      = filter (\<lambda>r. low \<le> Payload_Mass r \<and> Payload_Mass r \<le> high
             \<and> (site \<noteq> ''ALL'' \<longrightarrow> Launch_Site r = site)) df"
    by (rule filter_cong) auto
  then show ?thesis
    by (simp add: scatter_rows)
qed

theorem get_scatter_chart_rows_witness:
  "\<exists>fig. get_scatter_chart [row_a1, row_b0, row_a0, row_heavy] ''CCAFS LC-40'' [1000, 5000] = Inr fig
     \<and> scatter_data fig = [row_a0]
     \<and> map Booster_Version_Category (scatter_data fig) = [''v1.1'']"
  using get_scatter_chart_rows [of "[row_a1, row_b0, row_a0, row_heavy]" "''CCAFS LC-40''" 1000 5000]
  by (auto simp: row_a1_def row_b0_def row_a0_def row_heavy_def)

text \<open>
  Claim C10. With a range whose two bounds are the same value \<open>v\<close>, the scatter callback
  keeps exactly the rows whose payload mass is \<open>v\<close> (of the selected site, when the
  selection is not \<open>ALL\<close>).
\<close>

theorem get_scatter_chart_degenerate:
  "\<exists>fig. get_scatter_chart df site [v, v] = Inr fig
     \<and> scatter_data fig =
         filter (\<lambda>r. Payload_Mass r = v \<and> (site \<noteq> ''ALL'' \<longrightarrow> Launch_Site r = site)) df"
proof -
  have "filter (\<lambda>r. v \<le> Payload_Mass r \<and> Payload_Mass r \<le> v
             \<and> (site = ''ALL'' \<or> Launch_Site r = site)) df
      = filter (\<lambda>r. Payload_Mass r = v \<and> (site \<noteq> ''ALL'' \<longrightarrow> Launch_Site r = site)) df"
    by (rule filter_cong) auto
  then show ?thesis
    by (simp add: scatter_rows)
qed

theorem get_scatter_chart_degenerate_witness:
  "\<exists>fig. get_scatter_chart [row_a1, row_b0, row_a0, row_heavy] ''KSC LC-39A'' [3000, 3000] = Inr fig
     \<and> scatter_data fig = [row_b0]"
  using get_scatter_chart_degenerate [of "[row_a1, row_b0, row_a0, row_heavy]" "''KSC LC-39A''" 3000]
  by (auto simp: row_a1_def row_b0_def row_a0_def row_heavy_def)

text \<open>
  Claim C1, as the module has it. The callback applies the two bounds as they are given:
  a row is kept when its payload mass is at least the first bound and at most the second.
  When the first bound is greater than the second no row passes, so the figure is empty,
  and it is the figure of the call with the bounds exchanged only when that figure is
  empty too.
\<close>

theorem get_scatter_chart_inverted_range:
  assumes "high < low"
  shows "(\<exists>fig. get_scatter_chart df site [low, high] = Inr fig \<and> scatter_data fig = [])
    \<and> (get_scatter_chart df site [low, high] = get_scatter_chart df site [high, low]
         \<longleftrightarrow> (\<exists>fig. get_scatter_chart df site [high, low] = Inr fig \<and> scatter_data fig = []))"
proof -
  from assms have
    "filter (\<lambda>r. low \<le> Payload_Mass r \<and> Payload_Mass r \<le> high
                 \<and> (site = ''ALL'' \<or> Launch_Site r = site)) df = []"
    by (auto simp: filter_empty_conv)
  then show ?thesis
    by (auto simp: scatter_rows)
qed

theorem get_scatter_chart_inverted_range_witness:
  "(0::rat) < 1000
   \<and> (\<exists>fig. get_scatter_chart [row_a1, row_b0] ''ALL'' [1000, 0] = Inr fig \<and> scatter_data fig = [])"
proof -
  have lt: "(0::rat) < 1000"
    by simp
  from lt get_scatter_chart_inverted_range [OF lt, of "[row_a1, row_b0]" "''ALL''"]
  show ?thesis by blast
qed

text \<open>
  The bounds are not put in order: with one row of payload mass 500 the range (1000, 0)
  gives the empty figure and the range (0, 1000) gives the row.
\<close>

theorem scatter_inverted_range_counterexample:
  "(0::rat) < 1000
   \<and> get_scatter_chart [row_a1] ''ALL'' [1000, 0]
       = Inr \<lparr>scatter_data = [],
              scatter_title = ''Correlation between Payload and Success for All Sites''\<rparr>
   \<and> get_scatter_chart [row_a1] ''ALL'' [0, 1000]
       = Inr \<lparr>scatter_data = [row_a1],
              scatter_title = ''Correlation between Payload and Success for All Sites''\<rparr>
   \<and> get_scatter_chart [row_a1] ''ALL'' [1000, 0] \<noteq> get_scatter_chart [row_a1] ''ALL'' [0, 1000]"
  by (simp add: scatter_rows row_a1_def)

text \<open>
  Claim C5, as the module has it. With the selection \<open>ALL\<close> and the range (0, 10000)
  the callback returns the rows whose payload mass lies between 0 and 10000; these are
  all the rows of the data set exactly when every payload mass of the data set lies in
  that range.
\<close>

theorem get_scatter_chart_full_range:
  "\<exists>fig. get_scatter_chart df ''ALL'' [0, 10000] = Inr fig
     \<and> scatter_data fig = filter (\<lambda>r. 0 \<le> Payload_Mass r \<and> Payload_Mass r \<le> 10000) df
     \<and> (scatter_data fig = df
          \<longleftrightarrow> (\<forall>r \<in> set df. 0 \<le> Payload_Mass r \<and> Payload_Mass r \<le> 10000))"
  by (simp add: scatter_rows filter_id_conv)

theorem get_scatter_chart_full_range_witness:
  "\<exists>fig. get_scatter_chart [row_a1, row_b0, row_a0] ''ALL'' [0, 10000] = Inr fig
     \<and> scatter_data fig = [row_a1, row_b0, row_a0]"
  using get_scatter_chart_full_range [of "[row_a1, row_b0, row_a0]"]
  by (auto simp: row_a1_def row_b0_def row_a0_def)

text \<open>A row of payload mass 15600 is not returned for the range (0, 10000).\<close>

theorem scatter_full_range_counterexample:
  "get_scatter_chart [row_heavy] ''ALL'' [0, 10000]
     = Inr \<lparr>scatter_data = [],
            scatter_title = ''Correlation between Payload and Success for All Sites''\<rparr>
   \<and> [row_heavy] \<noteq> []"
  by (simp add: scatter_rows row_heavy_def)

section \<open>The summary chart\<close>

text \<open>
  Claim C2, as the module has it. With the selection \<open>ALL\<close> the pie callback does not group:
  it gives the pie chart one entry per record, in the order of the data set, named by the
  record's site and valued by its class column. With a binary class column the values of
  the entries of a site add up to the number of its successful launches, and all values
  together to at most the number of records.
\<close>

theorem get_pie_chart_all_sites:
  assumes "binary_class df"
  shows "length (pie_rows (get_pie_chart df ''ALL'')) = length df
    \<and> map fst (pie_rows (get_pie_chart df ''ALL'')) = map (\<lambda>r. SiteName (Launch_Site r)) df
    \<and> map snd (pie_rows (get_pie_chart df ''ALL'')) = map class_col df
    \<and> (\<forall>s. sum_list (map snd (filter (\<lambda>p. fst p = SiteName s)
                                   (pie_rows (get_pie_chart df ''ALL''))))
             = int (outcome_count df s 1))
    \<and> sum_list (map snd (pie_rows (get_pie_chart df ''ALL''))) \<le> int (length df)"
proof -
  let ?rows = "pie_rows (get_pie_chart df ''ALL'')"
  have rows: "?rows = map (\<lambda>r. (SiteName (Launch_Site r), class_col r)) df"
    by (simp add: get_pie_chart_def)
  have per_site: "sum_list (map snd (filter (\<lambda>p. fst p = SiteName s) ?rows))
                    = int (outcome_count df s 1)" for s
    by (simp only: rows site_group_sum binary_sum_count [OF assms])
  have "sum_list (map snd ?rows) = sum_list (map class_col df)"
    by (simp add: rows comp_def)
  with binary_sum_le [OF assms] have total: "sum_list (map snd ?rows) \<le> int (length df)"
    by simp
  from per_site total show ?thesis
    by (simp add: rows comp_def)
qed

theorem get_pie_chart_all_sites_witness:
  "binary_class [row_a1, row_b0, row_a0]
   \<and> sum_list (map snd (filter (\<lambda>p. fst p = SiteName ''CCAFS LC-40'')
                           (pie_rows (get_pie_chart [row_a1, row_b0, row_a0] ''ALL'')))) = 1
   \<and> sum_list (map snd (pie_rows (get_pie_chart [row_a1, row_b0, row_a0] ''ALL''))) \<le> 3"
proof -
  have b: "binary_class [row_a1, row_b0, row_a0]"
    by (simp add: binary_class_def row_a1_def row_b0_def row_a0_def)
  note all = get_pie_chart_all_sites [OF b]
  from all [THEN conjunct2, THEN conjunct2, THEN conjunct2, THEN conjunct1]
  have "sum_list (map snd (filter (\<lambda>p. fst p = SiteName ''CCAFS LC-40'')
                           (pie_rows (get_pie_chart [row_a1, row_b0, row_a0] ''ALL'')))) = 1"
    by (simp add: outcome_count_def row_a1_def row_b0_def row_a0_def)
  moreover from all [THEN conjunct2, THEN conjunct2, THEN conjunct2, THEN conjunct2]
  have "sum_list (map snd (pie_rows (get_pie_chart [row_a1, row_b0, row_a0] ''ALL''))) \<le> 3"
    by simp
  ultimately show ?thesis using b by blast
qed

text \<open>
  The entries are not one per site with a success: in a data set of three records the
  site with a success has two entries, and the site without any success has one.
\<close>

theorem pie_all_sites_counterexample:
  "pie_rows (get_pie_chart [row_a1, row_b0, row_a0] ''ALL'')
     = [(SiteName ''CCAFS LC-40'', 1), (SiteName ''KSC LC-39A'', 0), (SiteName ''CCAFS LC-40'', 0)]
   \<and> \<not> distinct (map fst (pie_rows (get_pie_chart [row_a1, row_b0, row_a0] ''ALL'')))
   \<and> outcome_count [row_a1, row_b0, row_a0] ''KSC LC-39A'' 1 = 0"
  by (simp add: get_pie_chart_def outcome_count_def row_a1_def row_b0_def row_a0_def)

text \<open>
  Claim C4. With a concrete site and a binary class column, the pie figure has at most
  two entries, with different labels: one labelled 0 with the number of the site's failed
  launches and one labelled 1 with the number of its successful launches, each present
  when its number is not zero. The values add up to the number of records of the site.
\<close>

theorem get_pie_chart_one_site:
  assumes "binary_class df" and "site \<noteq> ''ALL''"
  shows "length (pie_rows (get_pie_chart df site)) \<le> 2
    \<and> distinct (map fst (pie_rows (get_pie_chart df site)))
    \<and> set (pie_rows (get_pie_chart df site))
        = (\<lambda>c. (ClassName c, int (outcome_count df site c)))
            ` {c. (c = 0 \<or> c = 1) \<and> 0 < outcome_count df site c}
    \<and> sum_list (map snd (pie_rows (get_pie_chart df site)))
        = int (length (filter (\<lambda>r. Launch_Site r = site) df))"
proof -
  let ?xs = "map class_col (filter (\<lambda>r. Launch_Site r = site) df)"
  let ?E = "pie_rows (get_pie_chart df site)"
  have E: "?E = map (\<lambda>(c, n). (ClassName c, int n)) (value_counts ?xs)"
    by (simp add: one_site_rows [OF assms(2)])
  have classes: "set ?xs \<subseteq> {0, 1}"
    by (rule binary_classes [OF assms(1)])
  have "length ?E = card (set ?xs)"
    by (simp add: E length_value_counts)
  also from classes have "\<dots> \<le> card {0, 1 :: int}"
    by (intro card_mono) simp_all
  finally have len: "length ?E \<le> 2"
    by simp
  have names: "distinct (map fst ?E)"
    by (rule one_site_names_distinct [OF assms(2)])
  have present: "c \<in> set ?xs \<longleftrightarrow> (c = 0 \<or> c = 1) \<and> 0 < outcome_count df site c" for c
  proof -
    have "c \<in> set ?xs \<longleftrightarrow> 0 < count_list ?xs c"
      using count_list_0_iff [of ?xs c] by auto
    with classes show ?thesis
      by (auto simp: count_class_site)
  qed
  have "set ?E = (\<lambda>c. (ClassName c, int (count_list ?xs c))) ` set ?xs"
    by (simp add: E set_value_counts image_image)
  also have "\<dots> = (\<lambda>c. (ClassName c, int (outcome_count df site c)))
                     ` {c. (c = 0 \<or> c = 1) \<and> 0 < outcome_count df site c}"
    using present by (auto simp: count_class_site)
  finally have entries: "set ?E = (\<lambda>c. (ClassName c, int (outcome_count df site c)))
                     ` {c. (c = 0 \<or> c = 1) \<and> 0 < outcome_count df site c}" .
  have "sum_list (map snd ?E) = int (sum_list (map snd (value_counts ?xs)))"
    by (simp add: E comp_def case_prod_beta sum_list_of_nat [symmetric])
  then have total: "sum_list (map snd ?E) = int (length (filter (\<lambda>r. Launch_Site r = site) df))"
    by (simp add: sum_value_counts)
  from len names entries total show ?thesis by blast
qed


theorem get_pie_chart_one_site_witness:
  "binary_class [row_a1, row_b0, row_a0, row_a1] \<and> ''CCAFS LC-40'' \<noteq> ''ALL''
   \<and> set (pie_rows (get_pie_chart [row_a1, row_b0, row_a0, row_a1] ''CCAFS LC-40''))
       = {(ClassName 0, 1), (ClassName 1, 2)}
   \<and> sum_list (map snd (pie_rows (get_pie_chart [row_a1, row_b0, row_a0, row_a1] ''CCAFS LC-40''))) = 3"
proof -
  have b: "binary_class [row_a1, row_b0, row_a0, row_a1]"
    by (simp add: binary_class_def row_a1_def row_b0_def row_a0_def)
  have s: "''CCAFS LC-40'' \<noteq> ''ALL''"
    by simp
  note one = get_pie_chart_one_site [OF b s]
  have "{c::int. (c = 0 \<or> c = 1)
          \<and> 0 < outcome_count [row_a1, row_b0, row_a0, row_a1] ''CCAFS LC-40'' c} = {0, 1}"
    by (auto simp: outcome_count_def row_a1_def row_b0_def row_a0_def)
  with one [THEN conjunct2, THEN conjunct2, THEN conjunct1]
  have "set (pie_rows (get_pie_chart [row_a1, row_b0, row_a0, row_a1] ''CCAFS LC-40''))
       = {(ClassName 0, 1), (ClassName 1, 2)}"
    by (simp add: outcome_count_def row_a1_def row_b0_def row_a0_def)
  moreover from one [THEN conjunct2, THEN conjunct2, THEN conjunct2]
  have "sum_list (map snd (pie_rows (get_pie_chart [row_a1, row_b0, row_a0, row_a1] ''CCAFS LC-40''))) = 3"
    by (simp add: row_a1_def row_b0_def row_a0_def)
  ultimately show ?thesis using b s by blast
qed

text \<open>
  Claim C6. For a site identifier other than \<open>ALL\<close> that no record carries, the pie
  callback returns a figure without rows, and the scatter
  callback returns a figure (not an error) without rows, for every payload range of two
  bounds.
\<close>

theorem unknown_site_empty:
  assumes "site \<noteq> ''ALL''" and "site \<notin> Launch_Site ` set df"
  shows "pie_rows (get_pie_chart df site) = []
    \<and> (\<exists>fig. get_scatter_chart df site [low, high] = Inr fig \<and> scatter_data fig = [])"
proof -
  from assms(2) have none: "filter (\<lambda>r. Launch_Site r = site) df = []"
    by (auto simp: filter_empty_conv)
  with assms(1) have rows: "pie_rows (get_pie_chart df site) = []"
    by (simp add: one_site_rows value_counts_def)
  moreover from assms have
    "filter (\<lambda>r. low \<le> Payload_Mass r \<and> Payload_Mass r \<le> high
                 \<and> (site = ''ALL'' \<or> Launch_Site r = site)) df = []"
    by (auto simp: filter_empty_conv)
  then have "\<exists>fig. get_scatter_chart df site [low, high] = Inr fig \<and> scatter_data fig = []"
    by (simp add: scatter_rows)
  ultimately show ?thesis using rows by blast
qed


theorem unknown_site_empty_witness:
  "''VAFB SLC-4E'' \<noteq> ''ALL'' \<and> ''VAFB SLC-4E'' \<notin> Launch_Site ` set [row_a1, row_b0]
   \<and> pie_rows (get_pie_chart [row_a1, row_b0] ''VAFB SLC-4E'') = []
   \<and> (\<exists>fig. get_scatter_chart [row_a1, row_b0] ''VAFB SLC-4E'' [0, 10000] = Inr fig
         \<and> scatter_data fig = [])"
proof -
  have s: "''VAFB SLC-4E'' \<noteq> ''ALL''"
    by simp
  have n: "''VAFB SLC-4E'' \<notin> Launch_Site ` set [row_a1, row_b0]"
    by (simp add: row_a1_def row_b0_def)
  from s n unknown_site_empty [OF s n, of 0 10000] show ?thesis
    by blast
qed

section \<open>The callbacks on the module state\<close>

lemma kept_refl: "kept s s"
  by (simp add: kept_def)

lemma kept_trans: "kept s s' \<Longrightarrow> kept s' s'' \<Longrightarrow> kept s s''"
  by (auto simp: kept_def)

lemma kept_loaded: "kept s s' \<Longrightarrow> loaded s df \<Longrightarrow> loaded s' df"
  by (auto simp: kept_def loaded_def)

lemma pie_call_result:
  assumes "loaded s df"
  shows "fst (get_pie_chart_call site s) = Inr (get_pie_chart df site)"
  using assms
  by (auto simp: loaded_def get_pie_chart_call_def get_pie_chart_def select_rows_def
      value_counts_reset_index_def set_columns_def px_pie_sites_def px_pie_counts_def)

lemma pie_call_kept:
  assumes "loaded s df"
  shows "kept s (snd (get_pie_chart_call site s))"
  using assms
  by (auto simp: loaded_def kept_def get_pie_chart_call_def select_rows_def
      value_counts_reset_index_def set_columns_def px_pie_sites_def px_pie_counts_def)

lemma scatter_call_result:
  assumes "loaded s df"
  shows "fst (get_scatter_chart_call site rng s) = get_scatter_chart df site rng"
  using assms
  by (auto simp: loaded_def get_scatter_chart_call_def get_scatter_chart_def select_rows_def
      px_scatter_def split: list.splits)

lemma scatter_call_kept:
  assumes "loaded s df"
  shows "kept s (snd (get_scatter_chart_call site rng s))"
  using assms
  by (auto simp: loaded_def kept_def get_scatter_chart_call_def select_rows_def
      px_scatter_def split: list.splits)

lemma invoke_kept: "loaded s df \<Longrightarrow> kept s (invoke s c)"
  by (cases c) (simp_all add: pie_call_kept scatter_call_kept)

lemma replay_kept: "loaded s df \<Longrightarrow> kept s (replay s calls)"
  unfolding replay_def
proof (induction calls arbitrary: s)
  case Nil
  show ?case by (simp add: kept_refl)
next
  case (Cons c calls)
  have step: "kept s (invoke s c)"
    by (rule invoke_kept [OF Cons.prems])
  then have "loaded (invoke s c) df"
    using Cons.prems by (rule kept_loaded)
  then have "kept (invoke s c) (fold (\<lambda>c s'. invoke s' c) calls (invoke s c))"
    by (rule Cons.IH)
  with step show ?case
    by (simp add: kept_trans)
qed

lemma startup_loaded: "loaded (startup df) df"
  by (simp add: loaded_def startup_def)

text \<open>
  Claim C9. In a state in which \<^verbatim>\<open>spacex_df\<close> refers to a frame with the rows \<open>df\<close>, a
  call of either callback leaves the variable referring to the same object and that
  object holding the rows \<open>df\<close>; so does every sequence of calls.
\<close>

theorem callbacks_keep_spacex_df:
  assumes "loaded s df"
  shows "g_spacex_df (snd (get_pie_chart_call site s)) = g_spacex_df s
    \<and> objects (snd (get_pie_chart_call site s)) (g_spacex_df s) = Some (Launches df)
    \<and> g_spacex_df (snd (get_scatter_chart_call site rng s)) = g_spacex_df s
    \<and> objects (snd (get_scatter_chart_call site rng s)) (g_spacex_df s) = Some (Launches df)
    \<and> g_spacex_df (replay s calls) = g_spacex_df s
    \<and> objects (replay s calls) (g_spacex_df s) = Some (Launches df)"
proof -
  have frame: "g_spacex_df s' = g_spacex_df s \<and> objects s' (g_spacex_df s) = Some (Launches df)"
    if "kept s s'" for s'
    using that assms by (auto simp: kept_def loaded_def)
  from frame [OF pie_call_kept [OF assms, of site]]
    frame [OF scatter_call_kept [OF assms, of site rng]]
    frame [OF replay_kept [OF assms, of calls]]
  show ?thesis by blast
qed

theorem callbacks_keep_spacex_df_witness:
  "loaded (startup [row_a1, row_b0, row_a0]) [row_a1, row_b0, row_a0]
   \<and> objects (snd (get_pie_chart_call ''CCAFS LC-40'' (startup [row_a1, row_b0, row_a0]))) 0
       = Some (Launches [row_a1, row_b0, row_a0])
   \<and> objects (snd (get_scatter_chart_call ''CCAFS LC-40'' [0, 1000]
                      (startup [row_a1, row_b0, row_a0]))) 0
       = Some (Launches [row_a1, row_b0, row_a0])
   \<and> objects (replay (startup [row_a1, row_b0, row_a0])
                [Pie_call ''KSC LC-39A'', Scatter_call ''CCAFS LC-40'' [0, 10000]]) 0
       = Some (Launches [row_a1, row_b0, row_a0])"
proof -
  have l: "loaded (startup [row_a1, row_b0, row_a0]) [row_a1, row_b0, row_a0]"
    by (rule startup_loaded)
  have g: "g_spacex_df (startup [row_a1, row_b0, row_a0]) = 0"
    by (simp add: startup_def)
  from l
    callbacks_keep_spacex_df [OF l, where site = "''CCAFS LC-40''" and rng = "[0, 1000]"
      and calls = "[Pie_call ''KSC LC-39A'', Scatter_call ''CCAFS LC-40'' [0, 10000]]"]
  show ?thesis
    unfolding g by blast
qed

text \<open>
  The calls do change the state. A call of the pie callback for a site builds two frame
  objects, the rows of the site and their counts, and sets the column names of the second.
\<close>

lemma pie_call_example:
  "fst (get_pie_chart_call ''CCAFS LC-40'' (startup [row_a1, row_b0, row_a0]))
     = Inr \<lparr>pie_rows = [(ClassName 1, 1), (ClassName 0, 1)],
            pie_title = ''Total Success vs. Failed Launches for CCAFS LC-40'',
            color_discrete_map = [(0, ''red''), (1, ''green'')]\<rparr>
   \<and> next_id (snd (get_pie_chart_call ''CCAFS LC-40'' (startup [row_a1, row_b0, row_a0]))) = 3
   \<and> objects (snd (get_pie_chart_call ''CCAFS LC-40'' (startup [row_a1, row_b0, row_a0]))) 1
       = Some (Launches [row_a1, row_a0])
   \<and> objects (snd (get_pie_chart_call ''CCAFS LC-40'' (startup [row_a1, row_b0, row_a0]))) 2
       = Some (Counts [''class'', ''count''] [(1, 1), (0, 1)])"
  by (simp add: get_pie_chart_call_def startup_def select_rows_def value_counts_reset_index_def
      set_columns_def px_pie_counts_def value_counts_def row_a1_def row_b0_def row_a0_def)

text \<open>
  What keeps the loaded frame apart from the frames a call builds is that its identifier
  has been given out: in the state where it has not, the frame built by the mask takes
  its place.
\<close>

lemma unallocated_frame_is_overwritten:
  "\<not> loaded state_unallocated [row_a1, row_b0]
   \<and> objects state_unallocated (g_spacex_df state_unallocated) = Some (Launches [row_a1, row_b0])
   \<and> objects (snd (get_scatter_chart_call ''ALL'' [0, 1000] state_unallocated))
         (g_spacex_df state_unallocated)
       = Some (Launches [row_a1])"
  by (simp add: loaded_def state_unallocated_def get_scatter_chart_call_def select_rows_def
      px_scatter_def row_a1_def row_b0_def)

text \<open>
  Claim C8. The result of a call depends on the rows of the loaded frame and on the
  arguments only. In every state in which \<^verbatim>\<open>spacex_df\<close> refers to a frame with the
  rows \<open>df\<close>, and after any sequence of earlier calls, the pie callback returns
  \<open>get_pie_chart df site\<close> and the scatter callback returns
  \<open>get_scatter_chart df site rng\<close>, the functions of the frame and the selection defined
  above. Two calls with the same arguments therefore agree, whatever the other variables
  of the module, the other objects, the identifiers and the earlier calls are.
\<close>

theorem callbacks_pure:
  assumes "loaded s df" and "loaded s' df"
  shows "fst (get_pie_chart_call site (replay s calls)) = Inr (get_pie_chart df site)
    \<and> fst (get_scatter_chart_call site rng (replay s calls)) = get_scatter_chart df site rng
    \<and> fst (get_pie_chart_call site (replay s calls))
        = fst (get_pie_chart_call site (replay s' calls'))
    \<and> fst (get_scatter_chart_call site rng (replay s calls))
        = fst (get_scatter_chart_call site rng (replay s' calls'))"
proof -
  have a: "loaded (replay s calls) df"
    by (rule kept_loaded [OF replay_kept [OF assms(1)] assms(1)])
  have b: "loaded (replay s' calls') df"
    by (rule kept_loaded [OF replay_kept [OF assms(2)] assms(2)])
  show ?thesis
    by (simp add: pie_call_result [OF a] pie_call_result [OF b]
        scatter_call_result [OF a] scatter_call_result [OF b])
qed

theorem callbacks_pure_witness:
  "loaded (startup [row_a1, row_b0, row_a0]) [row_a1, row_b0, row_a0]
   \<and> loaded state_elsewhere [row_a1, row_b0, row_a0]
   \<and> fst (get_pie_chart_call ''CCAFS LC-40'' (replay (startup [row_a1, row_b0, row_a0]) []))
       = fst (get_pie_chart_call ''CCAFS LC-40''
                (replay state_elsewhere [Scatter_call ''ALL'' [0, 100], Pie_call ''KSC LC-39A'']))
   \<and> fst (get_scatter_chart_call ''CCAFS LC-40'' [0, 1000]
             (replay (startup [row_a1, row_b0, row_a0]) []))
       = fst (get_scatter_chart_call ''CCAFS LC-40'' [0, 1000]
                (replay state_elsewhere [Scatter_call ''ALL'' [0, 100], Pie_call ''KSC LC-39A'']))"
proof -
  have l: "loaded (startup [row_a1, row_b0, row_a0]) [row_a1, row_b0, row_a0]"
    by (rule startup_loaded)
  have l': "loaded state_elsewhere [row_a1, row_b0, row_a0]"
    by (simp add: loaded_def state_elsewhere_def)
  from l l'
    callbacks_pure [OF l l', where site = "''CCAFS LC-40''" and calls = "[]"
      and rng = "[0, 1000]"
      and calls' = "[Scatter_call ''ALL'' [0, 100], Pie_call ''KSC LC-39A'']"]
  show ?thesis by blast
qed

text \<open>The second of the two calls compared above, computed step by step.\<close>

lemma replay_example:
  "fst (get_scatter_chart_call ''CCAFS LC-40'' [0, 1000]
          (replay state_elsewhere [Scatter_call ''ALL'' [0, 100], Pie_call ''KSC LC-39A'']))
     = Inr \<lparr>scatter_data = [row_a1],
            scatter_title = ''Correlation between Payload and Success for CCAFS LC-40''\<rparr>
   \<and> next_id (replay state_elsewhere [Scatter_call ''ALL'' [0, 100], Pie_call ''KSC LC-39A'']) = 12"
  by (simp add: replay_def state_elsewhere_def get_scatter_chart_call_def get_pie_chart_call_def
      select_rows_def value_counts_reset_index_def set_columns_def px_pie_counts_def px_scatter_def
      row_a1_def row_b0_def row_a0_def)

end
